theory Spec2Isabelle
  imports Complex_Main "HOL-Library.Multiset"
begin

section \<open>Candidate ranking: the backend service, the ranking form and the scoring rules\<close>

text \<open>
  The backend service (\<^verbatim>\<open>candidates.service.ts\<close>) derives a candidate's years of
  experience when a CV is uploaded, and forwards ranking requests to a separate scoring
  service. The first part of this theory embeds \<^verbatim>\<open>calculateYearsOfExperience\<close>,
  \<^verbatim>\<open>uploadCv\<close>, \<^verbatim>\<open>rankCandidates\<close> and the ranking form's \<^verbatim>\<open>handleSubmit\<close>; the second part
  models the scoring rules of the scoring service, whose code is not part of the sources,
  from their specification.
\<close>

subsection \<open>JavaScript values\<close>

text \<open>
  A JavaScript number that is either \<^verbatim>\<open>NaN\<close> or a finite value. The finite values the
  derivation returns are doubles nearest to \<open>k / 10\<close> for an integer \<open>k\<close>; the model
  keeps the decimal \<open>k / 10\<close> itself.
\<close>

datatype js_number = NaN | Num rat

datatype js_error = TypeError | BadRequestException string

text \<open>
  What a date field of the parsed data can hold: nothing (\<^verbatim>\<open>undefined\<close>, the key is
  absent), \<^verbatim>\<open>null\<close>, or a string, which is what the entity declares. Other kinds of
  values are outside the model.
\<close>

datatype js_value = Undefined | Null | Str string

text \<open>
  What \<^verbatim>\<open>getFullYear()\<close> and \<^verbatim>\<open>getMonth()\<close> read from a \<^verbatim>\<open>Date\<close>: \<open>None\<close> is
  an Invalid Date (both getters return \<^verbatim>\<open>NaN\<close>), \<open>Some (y, m)\<close> a valid date in year
  \<open>y\<close> and month \<open>m\<close>, counted from 0.
\<close>

type_synonym js_date = "(int \<times> int) option"

text \<open>
  Strings are lists of characters with the code points U+0000 to U+00FF; strings with
  other characters are outside the model. \<^verbatim>\<open>String.prototype.toLowerCase\<close> maps the
  letters A to Z and the upper-case letters of U+00C0 to U+00DE (all but the
  multiplication sign U+00D7) to the letter 32 code points further on, and keeps every
  other character.
\<close>

definition toLowerCase_char :: "char \<Rightarrow> char" where
  "toLowerCase_char c =
     (let n = (of_char c :: nat)
      in if (65 \<le> n \<and> n \<le> 90) \<or> (192 \<le> n \<and> n \<le> 222 \<and> n \<noteq> 215)
         then char_of (n + 32) else c)"

definition toLowerCase :: "string \<Rightarrow> string" where
  "toLowerCase s = map toLowerCase_char s"

subsection \<open>A date parser for concrete inputs\<close>

text \<open>
  \<^verbatim>\<open>calculateYearsOfExperience\<close> below takes the behaviour of \<^verbatim>\<open>new Date(string)\<close> as a
  parameter, so that its theorems hold for every parser. \<open>iso_date\<close> is the instance
  used on concrete inputs: the date-only forms \<^verbatim>\<open>YYYY-MM\<close> and \<^verbatim>\<open>YYYY-MM-DD\<close> of the
  ECMAScript date-time string format, read in a zone where local time is UTC. Any other
  string is an Invalid Date in this instance.
\<close>

definition digit_val :: "char \<Rightarrow> nat option" where
  "digit_val c =
     (let n = (of_char c :: nat) in if 48 \<le> n \<and> n \<le> 57 then Some (n - 48) else None)"

fun digits_val :: "nat \<Rightarrow> string \<Rightarrow> nat option" where
  "digits_val acc [] = Some acc"
| "digits_val acc (c # cs) =
     (case digit_val c of None \<Rightarrow> None | Some d \<Rightarrow> digits_val (10 * acc + d) cs)"

definition days_in_month :: "nat \<Rightarrow> nat \<Rightarrow> nat" where
  "days_in_month y m =
     (if m = 2 then (if y mod 4 = 0 \<and> (y mod 400 = 0 \<or> y mod 100 \<noteq> 0) then 29 else 28)
      else if m = 4 \<or> m = 6 \<or> m = 9 \<or> m = 11 then 30 else 31)"

definition iso_date :: "string \<Rightarrow> js_date" where
  "iso_date s =
     (if length s \<noteq> 7 \<and> length s \<noteq> 10 then None
      else if s ! 4 \<noteq> CHR ''-'' then None
      else case (digits_val 0 (take 4 s), digits_val 0 (take 2 (drop 5 s))) of
        (Some y, Some m) \<Rightarrow>
          if m < 1 \<or> 12 < m then None
          else if length s = 7 then Some (int y, int m - 1)
          else if s ! 7 \<noteq> CHR ''-'' then None
          else (case digits_val 0 (drop 8 s) of
                  Some d \<Rightarrow>
                    if 1 \<le> d \<and> d \<le> days_in_month y m then Some (int y, int m - 1)
                    else None
                | None \<Rightarrow> None)
      | _ \<Rightarrow> None)"

subsection \<open>Experience entries and the years-of-experience derivation\<close>

text \<open>
  An entry of the (untyped) parsed experience list, which is an object. The entity
  declares both dates as strings; the parsed data comes from another service, so a date
  may also be absent or \<^verbatim>\<open>null\<close>.
\<close>

record Experience =
  title :: string
  company :: string
  startDate :: js_value
  endDate :: js_value
  description :: string

text \<open>
  \<^verbatim>\<open>new Date(exp.startDate)\<close>: \<^verbatim>\<open>new Date(undefined)\<close> is an Invalid Date,
  \<^verbatim>\<open>new Date(null)\<close> is the time value 0, that is 1 January 1970 UTC, and a string is
  parsed. \<open>epoch\<close> is the year and month that local time shows at the time value 0:
  January 1970 at and east of Greenwich, December 1969 west of it.
\<close>

definition new_Date :: "(string \<Rightarrow> js_date) \<Rightarrow> int \<times> int \<Rightarrow> js_value \<Rightarrow> js_date" where
  "new_Date parse epoch v =
     (case v of Undefined \<Rightarrow> None | Null \<Rightarrow> Some epoch | Str s \<Rightarrow> parse s)"

text \<open>
  \<^verbatim>\<open>(end.getFullYear() - start.getFullYear()) * 12 + (end.getMonth() - start.getMonth())\<close>;
  \<open>None\<close> is \<^verbatim>\<open>NaN\<close>, which every arithmetic operation propagates.
\<close>

definition months_between :: "js_date \<Rightarrow> js_date \<Rightarrow> int option" where
  "months_between start end' =
     (case (start, end') of
        (Some (sy, sm), Some (ey, em)) \<Rightarrow> Some ((ey - sy) * 12 + (em - sm))
      | _ \<Rightarrow> None)"

text \<open>\<^verbatim>\<open>totalMonths += months\<close>\<close>

definition add_months :: "int option \<Rightarrow> int option \<Rightarrow> int option" where
  "add_months totalMonths months =
     (case (totalMonths, months) of (Some t, Some m) \<Rightarrow> Some (t + m) | _ \<Rightarrow> None)"

text \<open>
  The loop over the entries. The state is the running total and the number of times the
  wall clock has been read; \<open>clock k\<close> is what the \<open>k\<close>-th \<^verbatim>\<open>new Date()\<close> of the process
  shows (year and month). \<^verbatim>\<open>exp.endDate.toLowerCase()\<close> throws a \<^verbatim>\<open>TypeError\<close> when the
  end date is absent or \<^verbatim>\<open>null\<close>, which leaves the loop and the function; the clock reads
  made for the entries before it have happened by then, so the number of reads is part of
  the result in that case too.
\<close>

fun sum_months ::
  "(string \<Rightarrow> js_date) \<Rightarrow> int \<times> int \<Rightarrow> (nat \<Rightarrow> int \<times> int) \<Rightarrow> Experience list \<Rightarrow> int option
     \<Rightarrow> nat \<Rightarrow> (js_error + int option) \<times> nat" where
  "sum_months parse epoch clock [] totalMonths reads = (Inr totalMonths, reads)"
| "sum_months parse epoch clock (exp' # rest) totalMonths reads =
     (let start = new_Date parse epoch (startDate exp') in
      case endDate exp' of
        Str e \<Rightarrow>
          if toLowerCase e = ''present''
          then sum_months parse epoch clock rest
                 (add_months totalMonths (months_between start (Some (clock reads))))
                 (Suc reads)
          else sum_months parse epoch clock rest
                 (add_months totalMonths (months_between start (parse e)))
                 reads
      | _ \<Rightarrow> (Inl TypeError, reads))"

text \<open>\<^verbatim>\<open>Math.round\<close>: the nearest integer, a half rounded towards plus infinity.\<close>

definition Math_round :: "rat \<Rightarrow> int" where
  "Math_round x = \<lfloor>x + 1 / 2\<rfloor>"

text \<open>
  \<^verbatim>\<open>Math.round(totalMonths / 12 * 10) / 10\<close>, computed here in exact arithmetic. The
  doubles of the source give the same integer under \<^verbatim>\<open>Math.round\<close> for every total a
  list of dates can reach: \<open>totalMonths * 10 / 12\<close> is either a multiple of one half, and
  then computed exactly, or at least one sixth away from the nearest half.
\<close>

definition round_years :: "int option \<Rightarrow> js_number" where
  "round_years totalMonths =
     (case totalMonths of
        None \<Rightarrow> NaN
      | Some m \<Rightarrow> Num (of_int (Math_round (of_int m / 12 * 10)) / 10))"

text \<open>
  The function itself. The argument is \<open>None\<close> when the list is absent
  (\<^verbatim>\<open>!experience\<close>). The result is what the function returns or throws, and the number
  of clock reads after the call.
\<close>

definition calculateYearsOfExperience ::
  "(string \<Rightarrow> js_date) \<Rightarrow> int \<times> int \<Rightarrow> (nat \<Rightarrow> int \<times> int) \<Rightarrow> nat \<Rightarrow> Experience list option
     \<Rightarrow> (js_error + js_number) \<times> nat" where
  "calculateYearsOfExperience parse epoch clock reads experience' =
     (case experience' of
        None \<Rightarrow> (Inr (Num 0), reads)
      | Some exps \<Rightarrow>
          if length exps = 0 then (Inr (Num 0), reads)
          else (case sum_months parse epoch clock exps (Some 0) reads of
                  (Inl err, reads') \<Rightarrow> (Inl err, reads')
                | (Inr totalMonths, reads') \<Rightarrow> (Inr (round_years totalMonths), reads')))"

subsection \<open>Notions the statements about the derivation use\<close>

text \<open>The end date is the word "present" in any letter case.\<close>

definition is_present :: "Experience \<Rightarrow> bool" where
  "is_present e = (case endDate e of Str s \<Rightarrow> toLowerCase s = ''present'' | _ \<Rightarrow> False)"

text \<open>The end date is a string, so that \<^verbatim>\<open>exp.endDate.toLowerCase()\<close> does not throw.\<close>

definition has_endDate :: "Experience \<Rightarrow> bool" where
  "has_endDate e = (case endDate e of Str s \<Rightarrow> True | _ \<Rightarrow> False)"

text \<open>
  An entry has well-formed dates when its start date is a string that parses, and its
  end date is a string that is "present" or parses.
\<close>

definition well_formed :: "(string \<Rightarrow> js_date) \<Rightarrow> Experience \<Rightarrow> bool" where
  "well_formed parse e =
     ((case startDate e of Str s \<Rightarrow> parse s \<noteq> None | _ \<Rightarrow> False) \<and>
      (case endDate e of Str s \<Rightarrow> toLowerCase s = ''present'' \<or> parse s \<noteq> None | _ \<Rightarrow> False))"


text \<open>
  The derivation as the specification words it. The end of an entry is the evaluation
  timestamp \<open>now\<close> when the end date is "present"; an entry contributes
  \<open>(endYear - startYear) * 12 + (endMonth - startMonth)\<close> months, and nothing when one
  of its dates is malformed or missing; the total is divided by 12 and rounded to one
  decimal place (a half rounded up, as \<^verbatim>\<open>Math.round\<close> does).
\<close>

definition spec_date :: "(string \<Rightarrow> js_date) \<Rightarrow> js_value \<Rightarrow> js_date" where
  "spec_date parse v = (case v of Str s \<Rightarrow> parse s | _ \<Rightarrow> None)"

definition spec_end :: "(string \<Rightarrow> js_date) \<Rightarrow> int \<times> int \<Rightarrow> Experience \<Rightarrow> js_date" where
  "spec_end parse now e =
     (if is_present e then Some now else spec_date parse (endDate e))"

definition spec_entry_months :: "(string \<Rightarrow> js_date) \<Rightarrow> int \<times> int \<Rightarrow> Experience \<Rightarrow> int" where
  "spec_entry_months parse now e =
     (case (spec_date parse (startDate e), spec_end parse now e) of
        (Some (startYear, startMonth), Some (endYear, endMonth)) \<Rightarrow>
          (endYear - startYear) * 12 + (endMonth - startMonth)
      | _ \<Rightarrow> 0)"

definition spec_total_months :: "(string \<Rightarrow> js_date) \<Rightarrow> int \<times> int \<Rightarrow> Experience list \<Rightarrow> int" where
  "spec_total_months parse now exps = sum_list (map (spec_entry_months parse now) exps)"

definition round_one_decimal :: "rat \<Rightarrow> rat" where
  "round_one_decimal x = of_int \<lfloor>x * 10 + 1 / 2\<rfloor> / 10"

definition spec_years :: "(string \<Rightarrow> js_date) \<Rightarrow> int \<times> int \<Rightarrow> Experience list \<Rightarrow> rat" where
  "spec_years parse now exps = round_one_decimal (of_int (spec_total_months parse now exps) / 12)"

text \<open>
  The end of an entry precedes its start: both dates parse, and the end's year and month
  come before the start's.
\<close>

definition ends_before_start :: "(string \<Rightarrow> js_date) \<Rightarrow> Experience \<Rightarrow> bool" where
  "ends_before_start parse e =
     (case (spec_date parse (startDate e), spec_date parse (endDate e)) of
        (Some (sy, sm), Some (ey, em)) \<Rightarrow> ey < sy \<or> (ey = sy \<and> em < sm)
      | _ \<Rightarrow> False)"

text \<open>The entries used on concrete inputs.\<close>

definition entry :: "js_value \<Rightarrow> js_value \<Rightarrow> Experience" where
  "entry s e =
     \<lparr>title = ''Engineer'', company = ''Acme'', startDate = s, endDate = e,
      description = ''''\<rparr>"

subsection \<open>Candidates and the upload of a CV\<close>

text \<open>
  What \<^verbatim>\<open>parseCvWithAI\<close> returns: the response of the parsing service, or the basic
  structure when the service fails. Every key may be absent or \<^verbatim>\<open>null\<close>, which is \<open>None\<close>.
  The type of the education entries is a parameter: they are carried along untouched.
\<close>

record 'ed ParsedCv =
  parsed_phone :: "string option"
  parsed_skills :: "string list option"
  parsed_experience :: "Experience list option"
  parsed_education :: "'ed list option"

text \<open>
  The \<^verbatim>\<open>Candidate\<close> entity. The column \<^verbatim>\<open>id\<close> is \<open>id'\<close> here; the timestamps
  \<^verbatim>\<open>createdAt\<close> and \<^verbatim>\<open>updatedAt\<close>, which the database sets, are left out. A nullable column
  is an option, except \<^verbatim>\<open>score\<close>, which has the default 0 and is only ever written with
  the number the scoring service gives. The type of the scoring details is a parameter.
\<close>

record ('ed, 'sd) Candidate =
  id' :: string
  email :: string
  fullName :: string
  phone :: "string option"
  skills :: "string list option"
  experience :: "Experience list option"
  education :: "'ed list option"
  cvFilePath :: string
  parsedData :: "'ed ParsedCv"
  score :: rat
  scoringDetails :: "'sd option"
  yearsOfExperience :: "js_number option"
  status :: string

text \<open>\<^verbatim>\<open>UploadCvDto\<close>; its fields carry the prefix \<open>dto_\<close>.\<close>

record UploadCvDto =
  dto_email :: string
  dto_fullName :: string
  dto_phone :: "string option"

text \<open>
  \<^verbatim>\<open>uploadCv\<close>. The state is the table of candidates, in the order in which
  \<^verbatim>\<open>find()\<close> returns its rows, and the number of clock reads. The file system is not
  modelled: \<open>filePath\<close> is the path the file is written to, \<open>parsed\<close> is what
  \<^verbatim>\<open>parseCvWithAI\<close> returns for it (it never throws), and \<open>new_id\<close> is the identifier the
  database gives the new row. The candidate is built field by field, so an exception of
  \<^verbatim>\<open>calculateYearsOfExperience\<close> leaves \<^verbatim>\<open>uploadCv\<close> before anything is saved. The
  clock reads that are counted are the \<^verbatim>\<open>new Date()\<close> that resolve "present" end dates;
  the time stamp \<^verbatim>\<open>Date.now()\<close> in the file name is part of \<open>filePath\<close>.
\<close>

definition uploadCv ::
  "(string \<Rightarrow> js_date) \<Rightarrow> int \<times> int \<Rightarrow> (nat \<Rightarrow> int \<times> int) \<Rightarrow> string \<Rightarrow> string \<Rightarrow> 'ed ParsedCv
     \<Rightarrow> UploadCvDto \<Rightarrow> ('ed, 'sd) Candidate list \<times> nat
     \<Rightarrow> (js_error + ('ed, 'sd) Candidate) \<times> (('ed, 'sd) Candidate list \<times> nat)" where
  "uploadCv parse epoch clock new_id filePath parsed uploadCvDto st =
     (case st of (store, reads) \<Rightarrow>
        if \<exists>existingCandidate \<in> set store. email existingCandidate = dto_email uploadCvDto
        then (Inl (BadRequestException ''Candidate with this email already exists''),
              (store, reads))
        else
          (case calculateYearsOfExperience parse epoch clock reads (parsed_experience parsed) of
             (Inl err, reads') \<Rightarrow> (Inl err, (store, reads'))
           | (Inr years, reads') \<Rightarrow>
               let candidate =
                 \<lparr>id' = new_id,
                  email = dto_email uploadCvDto,
                  fullName = dto_fullName uploadCvDto,
                  phone = (case dto_phone uploadCvDto of
                             None \<Rightarrow> parsed_phone parsed
                           | Some p \<Rightarrow> if p = '''' then parsed_phone parsed else Some p),
                  skills = Some (case parsed_skills parsed of None \<Rightarrow> [] | Some s \<Rightarrow> s),
                  experience =
                    Some (case parsed_experience parsed of None \<Rightarrow> [] | Some e \<Rightarrow> e),
                  education =
                    Some (case parsed_education parsed of None \<Rightarrow> [] | Some e \<Rightarrow> e),
                  cvFilePath = filePath,
                  parsedData = parsed,
                  score = 0,
                  scoringDetails = None,
                  yearsOfExperience = Some years,
                  status = ''pending''\<rparr>
               in (Inr candidate, (store @ [candidate], reads'))))"

subsection \<open>The ranking request of the backend\<close>

text \<open>\<^verbatim>\<open>RankCandidatesDto\<close>; an optional field is an option.\<close>

record RankCandidatesDto =
  jobTitle :: string
  jobDescription :: string
  requiredSkills :: "string list"
  preferredSkills :: "string list option"
  minYearsExperience :: "rat option"
  requiredEducation :: "string option"

text \<open>
  The body that \<^verbatim>\<open>rankCandidates\<close> posts to the scoring service. The keys \<^verbatim>\<open>title\<close> and
  \<^verbatim>\<open>description\<close> of the job requirements carry the prefix \<open>job_\<close>, and the keys
  \<^verbatim>\<open>id\<close>, \<^verbatim>\<open>email\<close>, \<^verbatim>\<open>skills\<close>, \<^verbatim>\<open>experience\<close> and \<^verbatim>\<open>education\<close> of a candidate the
  prefix \<open>candidate_\<close>.
\<close>

record JobRequirements =
  job_title :: string
  job_description :: string
  required_skills :: "string list"
  preferred_skills :: "string list"
  min_years_experience :: rat
  required_education :: string

record 'ed CandidatePayload =
  candidate_id :: string
  candidate_email :: string
  full_name :: string
  candidate_skills :: "string list"
  candidate_experience :: "Experience list"
  candidate_education :: "'ed list"
  years_of_experience :: rat

record 'ed RankRequest =
  job_requirements :: JobRequirements
  candidates :: "'ed CandidatePayload list"

text \<open>
  An element of \<^verbatim>\<open>response.data.ranked_candidates\<close>; its key \<^verbatim>\<open>candidate_id\<close> is
  \<open>ranked_id\<close> and its key \<^verbatim>\<open>score\<close> is \<open>ranked_score\<close> here.
\<close>

record 'sd RankedCandidate =
  ranked_id :: string
  ranked_score :: rat
  scoring_details :: 'sd

text \<open>
  \<^verbatim>\<open>c.yearsOfExperience || 0\<close>: an absent value, \<^verbatim>\<open>NaN\<close> and 0 are falsy and give 0.
\<close>

definition years_or_zero :: "js_number option \<Rightarrow> rat" where
  "years_or_zero y = (case y of Some (Num n) \<Rightarrow> n | _ \<Rightarrow> 0)"

text \<open>The object literal that is posted (lines 121 to 139 of the service).\<close>

definition rank_request ::
  "RankCandidatesDto \<Rightarrow> ('ed, 'sd) Candidate list \<Rightarrow> 'ed RankRequest" where
  "rank_request rankDto candidates' =
     \<lparr>job_requirements =
        \<lparr>job_title = jobTitle rankDto,
         job_description = jobDescription rankDto,
         required_skills = requiredSkills rankDto,
         preferred_skills = (case preferredSkills rankDto of None \<Rightarrow> [] | Some s \<Rightarrow> s),
         min_years_experience = (case minYearsExperience rankDto of None \<Rightarrow> 0 | Some n \<Rightarrow> n),
         required_education = (case requiredEducation rankDto of None \<Rightarrow> '''' | Some s \<Rightarrow> s)\<rparr>,
      candidates =
        map (\<lambda>c.
          \<lparr>candidate_id = id' c,
           candidate_email = email c,
           full_name = fullName c,
           candidate_skills = (case skills c of None \<Rightarrow> [] | Some s \<Rightarrow> s),
           candidate_experience = (case experience c of None \<Rightarrow> [] | Some e \<Rightarrow> e),
           candidate_education = (case education c of None \<Rightarrow> [] | Some e \<Rightarrow> e),
           years_of_experience = years_or_zero (yearsOfExperience c)\<rparr>) candidates'\<rparr>"

text \<open>
  \<^verbatim>\<open>candidatesRepository.update({ id }, { score, scoringDetails })\<close>: the rows with the
  identifier get the score and the details, the other rows stay.
\<close>

definition update_ranked ::
  "'sd RankedCandidate \<Rightarrow> ('ed, 'sd) Candidate list \<Rightarrow> ('ed, 'sd) Candidate list" where
  "update_ranked rankedCandidate store =
     map (\<lambda>c. if id' c = ranked_id rankedCandidate
              then c\<lparr>score := ranked_score rankedCandidate,
                     scoringDetails := Some (scoring_details rankedCandidate)\<rparr>
              else c) store"

text \<open>
  \<^verbatim>\<open>rankCandidates\<close>. Two collaborators are parameters. \<open>service\<close> is the scoring
  service: the ranked candidates it answers with, or \<open>None\<close> when the call fails, which
  the \<^verbatim>\<open>catch\<close> turns into a \<^verbatim>\<open>BadRequestException\<close>. \<open>find_by_score_desc\<close> is the
  database answering \<^verbatim>\<open>find({ order: { score: 'DESC' } })\<close>; the database itself is
  taken not to fail. The function contains no \<^verbatim>\<open>new Date()\<close>, so the number of clock
  reads passes through unchanged.
\<close>

definition rankCandidates ::
  "('ed RankRequest \<Rightarrow> 'sd RankedCandidate list option)
     \<Rightarrow> (('ed, 'sd) Candidate list \<Rightarrow> ('ed, 'sd) Candidate list)
     \<Rightarrow> RankCandidatesDto \<Rightarrow> ('ed, 'sd) Candidate list \<times> nat
     \<Rightarrow> (js_error + ('ed, 'sd) Candidate list) \<times> (('ed, 'sd) Candidate list \<times> nat)" where
  "rankCandidates service find_by_score_desc rankDto st =
     (case st of (store, reads) \<Rightarrow>
        let candidates' = store in
        if length candidates' = 0 then (Inr [], (store, reads))
        else
          (case service (rank_request rankDto candidates') of
             None \<Rightarrow>
               (Inl (BadRequestException
                       ''Failed to rank candidates. AI service may be unavailable.''),
                (store, reads))
           | Some rankedCandidates \<Rightarrow>
               let store' = foldl (\<lambda>rows rankedCandidate. update_ranked rankedCandidate rows)
                              store rankedCandidates
               in (Inr (find_by_score_desc store'), (store', reads))))"


text \<open>
  Two databases that keep the promise: one lists rows with equal scores in the order of
  the table, the other in the opposite order.
\<close>

definition ties_in_table_order ::
  "('ed, 'sd) Candidate list \<Rightarrow> ('ed, 'sd) Candidate list" where
  "ties_in_table_order rows = sort_key (\<lambda>c. - score c) rows"


text \<open>The values used on concrete inputs.\<close>

definition upload_dto :: "string \<Rightarrow> string \<Rightarrow> UploadCvDto" where
  "upload_dto e n = \<lparr>dto_email = e, dto_fullName = n, dto_phone = None\<rparr>"

definition parsed_cv :: "Experience list \<Rightarrow> unit ParsedCv" where
  "parsed_cv exps =
     \<lparr>parsed_phone = None, parsed_skills = Some [''Swift''],
      parsed_experience = Some exps, parsed_education = None\<rparr>"

definition rank_dto :: "string list \<Rightarrow> RankCandidatesDto" where
  "rank_dto required =
     \<lparr>jobTitle = ''iOS Developer'', jobDescription = ''Build iOS apps'',
      requiredSkills = required, preferredSkills = None, minYearsExperience = None,
      requiredEducation = None\<rparr>"

definition stored :: "string \<Rightarrow> js_number option \<Rightarrow> (unit, unit) Candidate" where
  "stored i years =
     \<lparr>id' = i, email = i @ ''@example.org'', fullName = i, phone = None,
      skills = Some [''Swift''], experience = None, education = None,
      cvFilePath = ''uploads/'' @ i, parsedData = parsed_cv [], score = 0,
      scoringDetails = None, yearsOfExperience = years, status = ''pending''\<rparr>"

text \<open>A scoring service that gives every candidate the score 70.\<close>

definition service_70 :: "unit RankRequest \<Rightarrow> unit RankedCandidate list option" where
  "service_70 request =
     Some (map (\<lambda>c. \<lparr>ranked_id = candidate_id c, ranked_score = 70, scoring_details = ()\<rparr>)
             (candidates request))"

subsection \<open>The ranking form\<close>

text \<open>
  The state of \<^verbatim>\<open>RankingForm\<close>; its fields carry the prefix \<open>form_\<close>. The body the form
  posts to \<^verbatim>\<open>/api/candidates/rank\<close> is a \<open>RankCandidatesDto\<close> with every field there.
\<close>

record RankingFormData =
  form_jobTitle :: string
  form_jobDescription :: string
  form_requiredSkills :: "string list"
  form_preferredSkills :: "string list"
  form_minYearsExperience :: int
  form_requiredEducation :: string

text \<open>
  \<^verbatim>\<open>String.prototype.trim\<close>: white space and line terminators are removed at both ends.
  Among the code points up to U+00FF these are U+0009 to U+000D, the space U+0020 and
  the no-break space U+00A0.
\<close>

definition is_whitespace :: "char \<Rightarrow> bool" where
  "is_whitespace c =
     (let n = (of_char c :: nat) in (9 \<le> n \<and> n \<le> 13) \<or> n = 32 \<or> n = 160)"

definition trim :: "string \<Rightarrow> string" where
  "trim s = rev (dropWhile is_whitespace (rev (dropWhile is_whitespace s)))"

text \<open>
  What \<^verbatim>\<open>handleSubmit\<close> does, in order: the alerts it shows, the changes of the loading
  flag, the request it posts and the results it hands to \<^verbatim>\<open>onRankingComplete\<close>.
\<close>

datatype 'r action = Alert string | SetLoading bool | Post RankCandidatesDto | RankingComplete 'r

text \<open>
  \<^verbatim>\<open>handleSubmit\<close>. The parameter \<open>post\<close> is the server's answer to the request: the
  response data, or a failure with the message of \<^verbatim>\<open>error.response?.data?.message\<close> when
  there is one.
\<close>

definition handleSubmit ::
  "(RankCandidatesDto \<Rightarrow> string option + 'r) \<Rightarrow> RankingFormData \<Rightarrow> 'r action list" where
  "handleSubmit post formData =
     (if form_jobTitle formData = '''' \<or> form_jobDescription formData = ''''
      then [Alert ''Please fill in job title and description'']
      else
        let requiredSkills' = filter (\<lambda>s. trim s \<noteq> '''') (form_requiredSkills formData) in
        if length requiredSkills' = 0
        then [Alert ''Please add at least one required skill'']
        else
          let body =
                \<lparr>jobTitle = form_jobTitle formData,
                 jobDescription = form_jobDescription formData,
                 requiredSkills = requiredSkills',
                 preferredSkills =
                   Some (filter (\<lambda>s. trim s \<noteq> '''') (form_preferredSkills formData)),
                 minYearsExperience = Some (of_int (form_minYearsExperience formData)),
                 requiredEducation = Some (form_requiredEducation formData)\<rparr>
          in [SetLoading True, Post body] @
             (case post body of
                Inr data \<Rightarrow> [RankingComplete data]
              | Inl message \<Rightarrow>
                  [Alert (case message of
                            None \<Rightarrow> ''Failed to rank candidates''
                          | Some m \<Rightarrow> if m = '''' then ''Failed to rank candidates'' else m)]) @
             [SetLoading False])"

text \<open>A form used on concrete inputs.\<close>

definition form :: "string \<Rightarrow> string \<Rightarrow> string list \<Rightarrow> RankingFormData" where
  "form t d required =
     \<lparr>form_jobTitle = t, form_jobDescription = d, form_requiredSkills = required,
      form_preferredSkills = [''''], form_minYearsExperience = 0,
      form_requiredEducation = ''''\<rparr>"

subsection \<open>The scoring rules of the scoring service\<close>

text \<open>
  The scoring service (\<^verbatim>\<open>enhanced_cv_service.py\<close>) is not among the sources; the backend
  only calls it. Its rules are modelled from the specification and from the algorithms
  the README documents.
\<close>

text \<open>
  Modelled from the spec: the skill matcher of the scoring service, which is missing from
  the sources. A target skill is matched when some candidate skill equals it after case
  normalisation; the result is the matched count, the number of target skills and the
  matched skills.
\<close>

definition matchSkills :: "string list \<Rightarrow> string list \<Rightarrow> nat \<times> nat \<times> string list" where
  "matchSkills candidateSkills targetSkills =
     (let matched = filter (\<lambda>t. toLowerCase t \<in> set (map toLowerCase candidateSkills))
                      targetSkills
      in (length matched, length targetSkills, matched))"

text \<open>
  Modelled from the spec: the skill-dimension score of the scoring service, which is
  missing from the sources: \<open>matchedCount / totalRequired\<close> scaled to 0 to 100, and 0 when
  \<open>totalRequired\<close> is 0. It is used with the required and with the preferred skills.
\<close>

definition skillsScore :: "string list \<Rightarrow> string list \<Rightarrow> rat" where
  "skillsScore candidateSkills targetSkills =
     (case matchSkills candidateSkills targetSkills of
        (matchedCount, totalRequired, matchedSet) \<Rightarrow>
          if totalRequired = 0 then 0
          else of_nat matchedCount / of_nat totalRequired * 100)"

text \<open>
  Modelled from the spec: the experience-years score of the scoring service, which is
  missing from the sources: 100 when nothing is required or the candidate has the
  required years, the ratio scaled to 100 otherwise.
\<close>

definition yearsExperienceScore :: "rat \<Rightarrow> rat \<Rightarrow> rat" where
  "yearsExperienceScore candidateYears requiredYears =
     (if requiredYears = 0 then 100
      else if candidateYears \<ge> requiredYears then 100
      else candidateYears / requiredYears * 100)"

text \<open>\<open>contains kw s\<close>: the keyword occurs in the text as a substring.\<close>

fun starts_with :: "string \<Rightarrow> string \<Rightarrow> bool" where
  "starts_with [] s = True"
| "starts_with (k # ks) [] = False"
| "starts_with (k # ks) (c # cs) = (k = c \<and> starts_with ks cs)"

fun contains :: "string \<Rightarrow> string \<Rightarrow> bool" where
  "contains kw [] = starts_with kw []"
| "contains kw (c # cs) = (starts_with kw (c # cs) \<or> contains kw cs)"

text \<open>
  Modelled from the spec: the education levels of the scoring service, which is missing
  from the sources: the keyword table of the education evaluator, matched
  case-insensitively as substrings, the highest level winning.
\<close>

definition educationLevel :: "string \<Rightarrow> int" where
  "educationLevel label =
     (let t = toLowerCase label in
      if contains ''phd'' t \<or> contains ''doctorate'' t then 5
      else if contains ''master'' t \<or> contains ''mba'' t then 4
      else if contains ''bachelor'' t then 3
      else if contains ''associate'' t then 2
      else if contains ''diploma'' t \<or> contains ''certificate'' t then 1
      else 0)"

text \<open>
  Modelled from the spec: an education entry of the candidate profile as the data model
  lists it (degree text, institution, dates); only the degree text is scored.
\<close>

record Education =
  degree :: string
  institution :: string
  dates :: string

text \<open>
  Modelled from the spec: the candidate's education level in the scoring service, which
  is missing from the sources: the highest level among the education entries, 0 without
  entries.
\<close>

definition candidateLevel :: "Education list \<Rightarrow> int" where
  "candidateLevel entries = foldr (\<lambda>e level. max (educationLevel (degree e)) level) entries 0"

text \<open>An education entry used on concrete inputs.\<close>

definition edu :: "string \<Rightarrow> Education" where
  "edu d = \<lparr>degree = d, institution = ''State University'', dates = ''2012-2016''\<rparr>"

text \<open>
  Modelled from the spec: the education score of the scoring service, which is missing
  from the sources: 100 without a requirement or at the required level and above, 70 one
  level below, 40 further below.
\<close>

definition educationScore :: "string \<Rightarrow> Education list \<Rightarrow> rat" where
  "educationScore requiredEducation' entries =
     (if requiredEducation' = '''' then 100
      else
        let requiredLevel = educationLevel requiredEducation';
            level = candidateLevel entries
        in if level \<ge> requiredLevel then 100
           else if level = requiredLevel - 1 then 70
           else 40)"

section \<open>Properties of the years-of-experience derivation\<close>

lemma round_years_Some:
  "round_years (Some m) = Num (round_one_decimal (of_int m / 12))"
  by (simp add: round_years_def Math_round_def round_one_decimal_def)

lemma round_one_decimal_zero: "round_one_decimal 0 = 0"
proof -
  have "\<lfloor>(1::rat) / 2\<rfloor> = 0" by (rule floor_unique) simp_all
  then show ?thesis by (simp add: round_one_decimal_def)
qed




lemma is_present_Str: "endDate x = Str s \<Longrightarrow> is_present x = (toLowerCase s = ''present'')"
  by (simp add: is_present_def)

lemma has_endDate_Str: "has_endDate x = (\<exists>s. endDate x = Str s)"
  by (cases "endDate x") (simp_all add: has_endDate_def)

lemma sum_months_missing:
  "\<not> has_endDate x \<Longrightarrow> sum_months parse epoch clock (x # xs) t r = (Inl TypeError, r)"
  by (cases "endDate x") (simp_all add: Let_def has_endDate_def)

lemma sum_months_present:
  "endDate x = Str s \<Longrightarrow> toLowerCase s = ''present'' \<Longrightarrow>
   sum_months parse epoch clock (x # xs) t r =
     sum_months parse epoch clock xs
       (add_months t (months_between (new_Date parse epoch (startDate x)) (Some (clock r))))
       (Suc r)"
  by (simp add: Let_def)

lemma sum_months_dated:
  "endDate x = Str s \<Longrightarrow> toLowerCase s \<noteq> ''present'' \<Longrightarrow>
   sum_months parse epoch clock (x # xs) t r =
     sum_months parse epoch clock xs
       (add_months t (months_between (new_Date parse epoch (startDate x)) (parse s))) r"
  by (simp add: Let_def)

declare sum_months.simps(2) [simp del]

text \<open>

\<close>

text \<open>The clock reads of the loop: one for every open-ended entry it reaches.\<close>

lemma sum_months_reads:
  "snd (sum_months parse epoch clock exps t r)
     = r + length (filter is_present (takeWhile has_endDate exps))"
proof (induction exps arbitrary: t r)
  case Nil
  then show ?case by simp
next
  case (Cons x xs)
  show ?case
  proof (cases "has_endDate x")
    case False
    then show ?thesis by (simp add: sum_months_missing)
  next
    case True
    then obtain s where s: "endDate x = Str s" by (auto simp: has_endDate_Str)
    show ?thesis
    proof (cases "toLowerCase s = ''present''")
      case present: True
      with s True show ?thesis
        by (simp add: sum_months_present Cons.IH is_present_Str)
    next
      case dated: False
      with s True show ?thesis
        by (simp add: sum_months_dated Cons.IH is_present_Str)
    qed
  qed
qed







lemma well_formed_dates:
  "well_formed parse e \<Longrightarrow>
   has_endDate e \<and> new_Date parse epoch (startDate e) = spec_date parse (startDate e) \<and>
   spec_date parse (startDate e) \<noteq> None"
  by (cases "startDate e"; cases "endDate e")
     (simp_all add: well_formed_def has_endDate_def new_Date_def spec_date_def)

lemma spec_entry_months_well_formed:
  "well_formed parse e \<Longrightarrow>
   months_between (new_Date parse epoch (startDate e)) (spec_end parse now e)
     = Some (spec_entry_months parse now e)"
proof -
  assume wf: "well_formed parse e"
  then have eq: "new_Date parse epoch (startDate e) = spec_date parse (startDate e)"
    and ne: "spec_date parse (startDate e) \<noteq> None"
    using well_formed_dates [of parse e epoch] by simp_all
  from ne obtain sy sm where st: "spec_date parse (startDate e) = Some (sy, sm)" by auto
  from wf obtain s where s: "endDate e = Str s"
    using well_formed_dates [of parse e epoch] by (auto simp: has_endDate_Str)
  with wf have "spec_end parse now e \<noteq> None"
    by (cases "startDate e") (auto simp: well_formed_def spec_end_def is_present_def spec_date_def)
  then obtain ey em where en: "spec_end parse now e = Some (ey, em)" by auto
  show ?thesis
    by (simp add: eq st en months_between_def spec_entry_months_def)
qed

lemma sum_months_well_formed:
  "\<forall>e\<in>set exps. well_formed parse e \<Longrightarrow> \<forall>k\<ge>r. clock k = now \<Longrightarrow>
   sum_months parse epoch clock exps (Some t) r
     = (Inr (Some (t + spec_total_months parse now exps)), r + length (filter is_present exps))"
proof (induction exps arbitrary: t r)
  case Nil
  then show ?case by (simp add: spec_total_months_def)
next
  case (Cons x xs)
  from Cons.prems(1) have wf: "well_formed parse x" by simp
  from Cons.prems(1) have rest: "\<forall>e\<in>set xs. well_formed parse e" by simp
  from wf obtain s where s: "endDate x = Str s"
    using well_formed_dates [of parse x epoch] by (auto simp: has_endDate_Str)
  have m: "months_between (new_Date parse epoch (startDate x)) (spec_end parse now x)
             = Some (spec_entry_months parse now x)"
    using wf by (rule spec_entry_months_well_formed)
  have tot: "spec_total_months parse now (x # xs)
               = spec_entry_months parse now x + spec_total_months parse now xs"
    by (simp add: spec_total_months_def)
  show ?case
  proof (cases "toLowerCase s = ''present''")
    case True
    then have e: "spec_end parse now x = Some (clock r)"
      using s Cons.prems(2) by (simp add: spec_end_def is_present_def)
    have later: "\<forall>k\<ge>Suc r. clock k = now" using Cons.prems(2) by simp
    have "sum_months parse epoch clock xs (Some (t + spec_entry_months parse now x)) (Suc r)
            = (Inr (Some (t + spec_entry_months parse now x + spec_total_months parse now xs)),
               Suc r + length (filter is_present xs))"
      by (rule Cons.IH [OF rest later])
    with s True m e tot show ?thesis
      by (simp add: sum_months_present add_months_def is_present_Str)
  next
    case False
    then have e: "spec_end parse now x = parse s"
      using s by (simp add: spec_end_def is_present_def spec_date_def)
    have "sum_months parse epoch clock xs (Some (t + spec_entry_months parse now x)) r
            = (Inr (Some (t + spec_entry_months parse now x + spec_total_months parse now xs)),
               r + length (filter is_present xs))"
      by (rule Cons.IH [OF rest Cons.prems(2)])
    with s False m e tot show ?thesis
      by (simp add: sum_months_dated add_months_def is_present_Str)
  qed
qed

lemma calculate_reads:
  "snd (calculateYearsOfExperience parse epoch clock reads (Some exps))
     = reads + length (filter is_present (takeWhile has_endDate exps))"
proof (cases exps)
  case Nil
  then show ?thesis by (simp add: calculateYearsOfExperience_def)
next
  case (Cons x xs)
  have "snd (sum_months parse epoch clock exps (Some 0) reads)
          = reads + length (filter is_present (takeWhile has_endDate exps))"
    by (rule sum_months_reads)
  with Cons show ?thesis
    by (cases "sum_months parse epoch clock exps (Some 0) reads")
       (auto simp: calculateYearsOfExperience_def split: sum.splits)
qed


text \<open>
  Claim C3. On a list whose entries all have well-formed dates, evaluated while the clock
  shows \<open>now\<close>, the function returns the sum over the entries of
  \<open>(endYear - startYear) * 12 + (endMonth - startMonth)\<close> months, an end date "present"
  (in any letter case) standing for \<open>now\<close>, divided by 12 and rounded to one decimal
  place. The months of the entries are added without regard to overlaps. An absent and
  an empty list give 0.
\<close>

theorem years_of_experience_rounded_month_sum:
  "calculateYearsOfExperience parse epoch clock reads None = (Inr (Num 0), reads) \<and>
   calculateYearsOfExperience parse epoch clock reads (Some []) = (Inr (Num 0), reads) \<and>
   ((\<forall>e\<in>set exps. well_formed parse e) \<and> (\<forall>k\<ge>reads. clock k = now) \<longrightarrow>
      calculateYearsOfExperience parse epoch clock reads (Some exps)
        = (Inr (Num (spec_years parse now exps)), reads + length (filter is_present exps)))"
proof (intro conjI impI)
  show "calculateYearsOfExperience parse epoch clock reads None = (Inr (Num 0), reads)"
    by (simp add: calculateYearsOfExperience_def)
  show "calculateYearsOfExperience parse epoch clock reads (Some []) = (Inr (Num 0), reads)"
    by (simp add: calculateYearsOfExperience_def)
next
  assume h: "(\<forall>e\<in>set exps. well_formed parse e) \<and> (\<forall>k\<ge>reads. clock k = now)"
  show "calculateYearsOfExperience parse epoch clock reads (Some exps)
          = (Inr (Num (spec_years parse now exps)), reads + length (filter is_present exps))"
  proof (cases exps)
    case Nil
    then show ?thesis
      by (simp add: calculateYearsOfExperience_def spec_years_def spec_total_months_def
            round_one_decimal_zero)
  next
    case (Cons x xs)
    from h have "sum_months parse epoch clock exps (Some 0) reads
                   = (Inr (Some (0 + spec_total_months parse now exps)),
                      reads + length (filter is_present exps))"
      by (intro sum_months_well_formed) simp_all
    with Cons show ?thesis
      by (simp add: calculateYearsOfExperience_def round_years_Some spec_years_def)
  qed
qed

text \<open>
  Two overlapping entries, the second one open-ended: 24 and 94 months, 118 in all,
  which is 9.8 years.
\<close>

theorem years_of_experience_rounded_month_sum_witness:
  "well_formed iso_date (entry (Str ''2018-01-15'') (Str ''2020-01-15'')) \<and>
   well_formed iso_date (entry (Str ''2019-01-15'') (Str ''PRESENT'')) \<and>
   calculateYearsOfExperience iso_date (1970, 0) (\<lambda>k. (2026, 10)) 0
     (Some [entry (Str ''2018-01-15'') (Str ''2020-01-15''),
            entry (Str ''2019-01-15'') (Str ''PRESENT'')])
     = (Inr (Num (49 / 5)), 1)"
proof -
  let ?exps = "[entry (Str ''2018-01-15'') (Str ''2020-01-15''),
                entry (Str ''2019-01-15'') (Str ''PRESENT'')]"
  have wf1: "well_formed iso_date (entry (Str ''2018-01-15'') (Str ''2020-01-15''))"
    by code_simp
  have wf2: "well_formed iso_date (entry (Str ''2019-01-15'') (Str ''PRESENT''))"
    by code_simp
  have hyp: "(\<forall>e\<in>set ?exps. well_formed iso_date e) \<and>
             (\<forall>k\<ge>(0::nat). (\<lambda>k. (2026::int, 10::int)) k = (2026, 10))"
    using wf1 wf2 by simp
  have val: "spec_years iso_date (2026, 10) ?exps = 49 / 5"
    by code_simp
  have cnt: "0 + length (filter is_present ?exps) = 1"
    by code_simp
  from years_of_experience_rounded_month_sum
         [of iso_date "(1970, 0)" "\<lambda>k. (2026, 10)" 0 ?exps "(2026, 10)"] hyp
  have "calculateYearsOfExperience iso_date (1970, 0) (\<lambda>k. (2026, 10)) 0 (Some ?exps)
          = (Inr (Num (spec_years iso_date (2026, 10) ?exps)),
             0 + length (filter is_present ?exps))"
    by blast
  then have "calculateYearsOfExperience iso_date (1970, 0) (\<lambda>k. (2026, 10)) 0 (Some ?exps)
               = (Inr (Num (49 / 5)), 1)"
    by (simp only: val cnt)
  with wf1 wf2 show ?thesis by blast
qed





text \<open>
  Claim C10. There is an entry with well-formed dates whose end precedes its start, which
  contributes a negative number of months and for which the function returns a negative
  number of years: from June 2020 back to January 2019 the months are \<open>- 17\<close> and the
  result is \<open>- 1.4\<close>.
\<close>

theorem negative_years_of_experience:
  "\<exists>e y. well_formed iso_date e \<and> ends_before_start iso_date e \<and>
          spec_entry_months iso_date now e < 0 \<and>
          calculateYearsOfExperience iso_date epoch clock reads (Some [e])
            = (Inr (Num y), reads) \<and>
          y < 0"
proof -
  let ?e = "entry (Str ''2020-06-15'') (Str ''2019-01-15'')"
  have wf: "well_formed iso_date ?e" by code_simp
  have before: "ends_before_start iso_date ?e" by code_simp
  have start: "new_Date iso_date epoch (startDate ?e) = Some (2020, 5)"
  proof -
    have "iso_date ''2020-06-15'' = Some (2020, 5)" by code_simp
    then show ?thesis by (simp add: new_Date_def entry_def)
  qed
  have sstart: "spec_date iso_date (startDate ?e) = Some (2020, 5)" by code_simp
  have e: "endDate ?e = Str ''2019-01-15''" by (simp add: entry_def)
  have fin: "iso_date ''2019-01-15'' = Some (2019, 0)" by code_simp
  have low: "toLowerCase ''2019-01-15'' \<noteq> ''present''" by code_simp
  have np: "\<not> is_present ?e" using low e by (simp add: is_present_Str)
  have en: "spec_date iso_date (endDate ?e) = Some (2019, 0)" by code_simp
  have m: "spec_entry_months iso_date now ?e = - 17"
    by (simp add: spec_entry_months_def spec_end_def np sstart en)
  have sm: "sum_months iso_date epoch clock [?e] (Some 0) reads = (Inr (Some (- 17)), reads)"
    by (subst sum_months_dated [OF e low])
       (simp add: start fin months_between_def add_months_def)
  have ry: "round_years (Some (- 17)) = Num (- 7 / 5)"
    by code_simp
  have "calculateYearsOfExperience iso_date epoch clock reads (Some [?e])
               = (Inr (Num (- 7 / 5)), reads)"
    by (simp add: calculateYearsOfExperience_def sm ry)
  with wf before m show ?thesis
    by (intro exI [of _ ?e] exI [of _ "- 7 / 5"]) simp
qed

section \<open>Properties of the upload and the ranking\<close>








lemma rank_request_years:
  "map years_of_experience (candidates (rank_request rankDto store))
     = map (\<lambda>c. years_or_zero (yearsOfExperience c)) store"
  by (simp add: rank_request_def)

lemma rankCandidates_reads:
  "snd (snd (rankCandidates service find_by_score_desc rankDto (store, reads))) = reads"
  by (cases "service (rank_request rankDto store)")
     (simp_all add: rankCandidates_def Let_def)

lemma uploadCv_saved:
  "uploadCv parse epoch clock new_id filePath parsed uploadCvDto (store, reads)
     = (Inr candidate, st') \<Longrightarrow>
   fst st' = store @ [candidate] \<and>
   (\<exists>years. yearsOfExperience candidate = Some years \<and>
      calculateYearsOfExperience parse epoch clock reads (parsed_experience parsed)
        = (Inr years, snd st'))"
  by (cases "calculateYearsOfExperience parse epoch clock reads (parsed_experience parsed)")
     (auto simp: uploadCv_def Let_def split: if_splits sum.splits)

text \<open>
  Claim C9 as stated fails. Two candidates with the same open-ended entry are uploaded,
  the first in November and the second in December 2026: two clock reads, and the stored
  years are 0.8 and 0.9. The ranking request carries these two values and the ranking
  reads no clock, so the candidates of one batch are measured against different values of
  "now". In one upload, a list with two open-ended entries reads the clock twice, a list
  without one does not read it, and a list whose first entry lacks its end date throws
  before the open-ended entry is reached.
\<close>

theorem clock_reads_batch_counterexample:
  "(case uploadCv iso_date (1970, 0) (\<lambda>k. (2026, 10 + int k)) ''1'' ''uploads/1-ann.pdf''
          (parsed_cv [entry (Str ''2026-01-15'') (Str ''present'')])
          (upload_dto ''ann@example.org'' ''Ann'') ([], 0) of
      (result1, st1) \<Rightarrow>
        (case uploadCv iso_date (1970, 0) (\<lambda>k. (2026, 10 + int k)) ''2'' ''uploads/2-bob.pdf''
                (parsed_cv [entry (Str ''2026-01-15'') (Str ''present'')])
                (upload_dto ''bob@example.org'' ''Bob'') st1 of
           (result2, st2) \<Rightarrow>
             snd st2 = 2 \<and>
             map years_of_experience
               (candidates (rank_request (rank_dto [''Swift'']) (fst st2))) = [4 / 5, 9 / 10] \<and>
             snd (snd (rankCandidates service_70 ties_in_table_order
                         (rank_dto [''Swift'']) st2)) = 2)) \<and>
   calculateYearsOfExperience iso_date (1970, 0) (\<lambda>k. (2026, 10 + int k)) 0
     (Some [entry (Str ''2026-01-15'') (Str ''present''),
            entry (Str ''2026-01-15'') (Str ''Present'')]) = (Inr (Num (9 / 5)), 2) \<and>
   calculateYearsOfExperience iso_date (1970, 0) (\<lambda>k. (2026, 10 + int k)) 0
     (Some [entry (Str ''2020-01-15'') (Str ''2021-01-15'')]) = (Inr (Num 1), 0) \<and>
   calculateYearsOfExperience iso_date (1970, 0) (\<lambda>k. (2026, 10 + int k)) 0
     (Some [entry (Str ''2020-01-15'') Undefined,
            entry (Str ''2026-01-15'') (Str ''present'')]) = (Inl TypeError, 0)"
  by code_simp

text \<open>
  Claim C9, amended. The clock is read where "present" end dates are resolved, in
  \<^verbatim>\<open>calculateYearsOfExperience\<close>: not at all for an absent list, and otherwise once for
  every entry whose end date is "present" among the entries before the first one without
  an end date (all entries, when every end date is there). \<^verbatim>\<open>uploadCv\<close> stores the
  number computed with these reads in the new candidate. \<^verbatim>\<open>rankCandidates\<close> reads no
  clock, and the request it sends carries for every candidate the years stored at its
  upload (0 for an absent value, \<^verbatim>\<open>NaN\<close> and 0).
\<close>

theorem clock_reads_of_upload_and_ranking:
  "snd (calculateYearsOfExperience parse epoch clock reads None) = reads \<and>
   snd (calculateYearsOfExperience parse epoch clock reads (Some exps))
     = reads + length (filter is_present (takeWhile has_endDate exps)) \<and>
   (uploadCv parse epoch clock new_id filePath parsed uploadCvDto (store, reads)
      = (Inr candidate, st') \<longrightarrow>
      fst st' = store @ [candidate] \<and>
      (\<exists>years. yearsOfExperience candidate = Some years \<and>
         calculateYearsOfExperience parse epoch clock reads (parsed_experience parsed)
           = (Inr years, snd st'))) \<and>
   snd (snd (rankCandidates service find_by_score_desc rankDto (store, reads))) = reads \<and>
   map years_of_experience (candidates (rank_request rankDto store))
     = map (\<lambda>c. years_or_zero (yearsOfExperience c)) store"
proof -
  have "snd (calculateYearsOfExperience parse epoch clock reads None) = reads"
    by (simp add: calculateYearsOfExperience_def)
  moreover note calculate_reads [of parse epoch clock reads exps]
  moreover note uploadCv_saved
                  [of parse epoch clock new_id filePath parsed uploadCvDto store reads candidate st']
  moreover note rankCandidates_reads [of service find_by_score_desc rankDto store reads]
  moreover note rank_request_years [of rankDto store]
  ultimately show ?thesis by blast
qed

text \<open>
  An upload in November 2026 of a CV with one open-ended entry since January 2026: one
  read, and 0.8 years stored.
\<close>

theorem clock_reads_of_upload_and_ranking_witness:
  "(\<exists>candidate st'.
      uploadCv iso_date (1970, 0) (\<lambda>k. (2026, 10 + int k)) ''1'' ''uploads/1-ann.pdf''
        (parsed_cv [entry (Str ''2026-01-15'') (Str ''present'')])
        (upload_dto ''ann@example.org'' ''Ann'') ([] :: (unit, unit) Candidate list, 0)
        = (Inr candidate, st') \<and>
      fst st' = [candidate] \<and> snd st' = 1 \<and> yearsOfExperience candidate = Some (Num (4 / 5)))"
proof -
  let ?clock = "\<lambda>k. (2026 :: int, 10 + int k)"
  let ?parsed = "parsed_cv [entry (Str ''2026-01-15'') (Str ''present'')]"
  let ?dto = "upload_dto ''ann@example.org'' ''Ann''"
  let ?up = "uploadCv iso_date (1970, 0) ?clock ''1'' ''uploads/1-ann.pdf'' ?parsed ?dto
               ([] :: (unit, unit) Candidate list, 0)"
  obtain result st' where up: "?up = (result, st')" by (cases ?up)
  have "case ?up of (Inr c, s) \<Rightarrow> True | (Inl e, s) \<Rightarrow> False"
    by code_simp
  with up obtain candidate where c: "result = Inr candidate"
    by (cases result) simp_all
  have calc: "calculateYearsOfExperience iso_date (1970, 0) ?clock 0 (parsed_experience ?parsed)
                = (Inr (Num (4 / 5)), 1)"
    by code_simp
  from clock_reads_of_upload_and_ranking
         [of iso_date "(1970, 0)" "?clock" 0 _ "''1''" "''uploads/1-ann.pdf''" "?parsed" "?dto"
             "[]" candidate st'] up c
  have "fst st' = [] @ [candidate] \<and>
        (\<exists>years. yearsOfExperience candidate = Some years \<and>
           calculateYearsOfExperience iso_date (1970, 0) ?clock 0 (parsed_experience ?parsed)
             = (Inr years, snd st'))"
    by blast
  with calc have "fst st' = [candidate] \<and> snd st' = 1 \<and>
                  yearsOfExperience candidate = Some (Num (4 / 5))"
    by auto
  with up c show ?thesis by blast
qed

text \<open>
  Claim C8 at a request with an empty list of required skills, sent to the backend while
  one candidate is stored. \<^verbatim>\<open>rankCandidates\<close> does not reject it: the empty list is
  forwarded to the scoring service, and the candidate comes back with the score the
  service gave. The ranking form does reject the same requirement before posting.
\<close>

theorem empty_required_skills_reach_scoring:
  "required_skills (job_requirements
     (rank_request (rank_dto []) [stored ''ann'' (Some (Num 6))])) = [] \<and>
   rankCandidates service_70 ties_in_table_order (rank_dto [])
     ([stored ''ann'' (Some (Num 6))], 0)
     = (Inr [(stored ''ann'' (Some (Num 6)))\<lparr>score := 70, scoringDetails := Some ()\<rparr>],
        ([(stored ''ann'' (Some (Num 6)))\<lparr>score := 70, scoringDetails := Some ()\<rparr>], 0)) \<and>
   handleSubmit (\<lambda>body. Inl None :: string option + unit)
     (form ''iOS Developer'' ''Build iOS apps'' [])
     = [Alert ''Please add at least one required skill'']"
  by code_simp

text \<open>
  \<^verbatim>\<open>rankCandidates\<close> forwards the required skills as they are, and whenever candidates
  are stored and the scoring service answers, it returns a list: no job requirement is
  rejected by the function itself.
\<close>

lemma rank_request_required_skills:
  "required_skills (job_requirements (rank_request rankDto store)) = requiredSkills rankDto"
  by (simp add: rank_request_def)

lemma rankCandidates_no_validation:
  "service (rank_request rankDto store) = Some ranked \<Longrightarrow>
   \<exists>rows st'. rankCandidates service find_by_score_desc rankDto (store, reads) = (Inr rows, st')"
  by (simp add: rankCandidates_def Let_def)

text \<open>
  The ranking form: a request is posted exactly when the job title, the job description
  and some required skill are filled in; a form without one is rejected with an alert and
  nothing else happens; a posted request never has an empty list of required skills.
\<close>

lemma handleSubmit_posts:
  "(\<exists>body. Post body \<in> set (handleSubmit post f)) =
   (form_jobTitle f \<noteq> '''' \<and> form_jobDescription f \<noteq> '''' \<and>
    filter (\<lambda>s. trim s \<noteq> '''') (form_requiredSkills f) \<noteq> [])"
  by (auto simp: handleSubmit_def Let_def split: sum.splits option.splits)

lemma handleSubmit_rejects_blank_required_skills:
  "filter (\<lambda>s. trim s \<noteq> '''') (form_requiredSkills f) = [] \<Longrightarrow>
   handleSubmit post f = [Alert ''Please fill in job title and description''] \<or>
   handleSubmit post f = [Alert ''Please add at least one required skill'']"
  by (simp add: handleSubmit_def)

lemma handleSubmit_posted_required_skills:
  "Post body \<in> set (handleSubmit post f) \<Longrightarrow> requiredSkills body \<noteq> []"
  by (auto simp: handleSubmit_def Let_def split: if_splits sum.splits option.splits)

section \<open>Properties of the scoring rules\<close>

lemma matchSkills_all:
  "set (map toLowerCase targetSkills) \<subseteq> set (map toLowerCase candidateSkills) \<Longrightarrow>
   matchSkills candidateSkills targetSkills = (length targetSkills, length targetSkills, targetSkills)"
proof -
  assume sub: "set (map toLowerCase targetSkills) \<subseteq> set (map toLowerCase candidateSkills)"
  have "filter (\<lambda>t. toLowerCase t \<in> set (map toLowerCase candidateSkills)) targetSkills
          = targetSkills"
  proof (rule filter_True)
    show "\<forall>t\<in>set targetSkills. toLowerCase t \<in> set (map toLowerCase candidateSkills)"
      using sub by auto
  qed
  then show ?thesis by (simp add: matchSkills_def)
qed

lemma matchSkills_none:
  "set (map toLowerCase candidateSkills) \<inter> set (map toLowerCase targetSkills) = {} \<Longrightarrow>
   matchSkills candidateSkills targetSkills = (0, length targetSkills, [])"
proof -
  assume disj: "set (map toLowerCase candidateSkills) \<inter> set (map toLowerCase targetSkills) = {}"
  have "filter (\<lambda>t. toLowerCase t \<in> set (map toLowerCase candidateSkills)) targetSkills = []"
  proof (rule filter_False)
    show "\<forall>t\<in>set targetSkills. \<not> toLowerCase t \<in> set (map toLowerCase candidateSkills)"
      using disj by auto
  qed
  then show ?thesis by (simp add: matchSkills_def)
qed

lemma matchSkills_count_le:
  "matchSkills candidateSkills targetSkills = (matchedCount, totalRequired, matchedSet) \<Longrightarrow>
   matchedCount \<le> totalRequired"
  by (auto simp: matchSkills_def Let_def)

text \<open>
  Claim C6. The skill score is the matched count over the number of target skills, times
  100, and lies between 0 and 100. Matching is equality after case normalisation. A
  candidate whose skills include every skill of a non-empty target list scores 100, a
  candidate who shares no skill with the target list scores 0, and an empty target list
  (no preferred skills) gives the score 0.
\<close>

theorem skills_score_ratio:
  "(case matchSkills candidateSkills targetSkills of
      (matchedCount, totalRequired, matchedSet) \<Rightarrow>
        skillsScore candidateSkills targetSkills
          = (if totalRequired = 0 then 0 else of_nat matchedCount / of_nat totalRequired * 100)) \<and>
   0 \<le> skillsScore candidateSkills targetSkills \<and>
   skillsScore candidateSkills targetSkills \<le> 100 \<and>
   (targetSkills \<noteq> [] \<and>
    set (map toLowerCase targetSkills) \<subseteq> set (map toLowerCase candidateSkills) \<longrightarrow>
      skillsScore candidateSkills targetSkills = 100) \<and>
   (set (map toLowerCase candidateSkills) \<inter> set (map toLowerCase targetSkills) = {} \<longrightarrow>
      skillsScore candidateSkills targetSkills = 0) \<and>
   skillsScore candidateSkills [] = 0"
proof (intro conjI impI)
  show "case matchSkills candidateSkills targetSkills of
          (matchedCount, totalRequired, matchedSet) \<Rightarrow>
            skillsScore candidateSkills targetSkills
              = (if totalRequired = 0 then 0
                 else of_nat matchedCount / of_nat totalRequired * 100)"
    by (simp add: skillsScore_def split: prod.splits)
next
  show "0 \<le> skillsScore candidateSkills targetSkills"
    by (simp add: skillsScore_def split: prod.splits)
next
  obtain m n ms where mt: "matchSkills candidateSkills targetSkills = (m, n, ms)"
    by (cases "matchSkills candidateSkills targetSkills") auto
  then have le: "m \<le> n" by (rule matchSkills_count_le)
  show "skillsScore candidateSkills targetSkills \<le> 100"
  proof (cases "n = 0")
    case True
    with mt show ?thesis by (simp add: skillsScore_def)
  next
    case False
    with le have "(of_nat m :: rat) / of_nat n \<le> 1" by (simp add: divide_le_eq)
    then have "(of_nat m :: rat) / of_nat n * 100 \<le> 1 * 100"
      by (rule mult_right_mono) simp
    with mt False show ?thesis by (simp add: skillsScore_def)
  qed
next
  assume "targetSkills \<noteq> [] \<and>
          set (map toLowerCase targetSkills) \<subseteq> set (map toLowerCase candidateSkills)"
  then show "skillsScore candidateSkills targetSkills = 100"
    by (simp add: skillsScore_def matchSkills_all)
next
  assume "set (map toLowerCase candidateSkills) \<inter> set (map toLowerCase targetSkills) = {}"
  then show "skillsScore candidateSkills targetSkills = 0"
    by (simp add: skillsScore_def matchSkills_none)
next
  show "skillsScore candidateSkills [] = 0"
    by (simp add: skillsScore_def matchSkills_def)
qed

text \<open>
  A candidate with all required skills in other letter cases, a candidate with none of
  them, and the candidate of the end-to-end example, who has three of five.
\<close>

theorem skills_score_ratio_witness:
  "skillsScore [''swift'', ''IOS'', ''UIKit'', ''Combine''] [''Swift'', ''iOS''] = 100 \<and>
   skillsScore [''Java'', ''Kotlin''] [''Swift'', ''iOS''] = 0 \<and>
   skillsScore [''Swift'', ''iOS'', ''UIKit'', ''SwiftUI'', ''Combine'']
     [''Swift'', ''iOS'', ''UIKit'', ''CoreData'', ''REST API''] = 60"
proof -
  let ?t = "[''Swift'', ''iOS'']"
  let ?a = "[''swift'', ''IOS'', ''UIKit'', ''Combine'']"
  let ?b = "[''Java'', ''Kotlin'']"
  let ?c = "[''Swift'', ''iOS'', ''UIKit'', ''SwiftUI'', ''Combine'']"
  let ?r = "[''Swift'', ''iOS'', ''UIKit'', ''CoreData'', ''REST API'']"
  have sup: "?t \<noteq> [] \<and> set (map toLowerCase ?t) \<subseteq> set (map toLowerCase ?a)"
    by code_simp
  have dis: "set (map toLowerCase ?b) \<inter> set (map toLowerCase ?t) = {}"
    by code_simp
  have m: "matchSkills ?c ?r = (3, 5, [''Swift'', ''iOS'', ''UIKit''])"
    by code_simp
  from skills_score_ratio [of ?a ?t] sup have a: "skillsScore ?a ?t = 100" by blast
  from skills_score_ratio [of ?b ?t] dis have b: "skillsScore ?b ?t = 0" by blast
  from skills_score_ratio [of ?c ?r]
  have "case matchSkills ?c ?r of
          (matchedCount, totalRequired, matchedSet) \<Rightarrow>
            skillsScore ?c ?r
              = (if totalRequired = 0 then 0
                 else of_nat matchedCount / of_nat totalRequired * 100)"
    by (rule conjunct1)
  then have c: "skillsScore ?c ?r = 60" by (simp add: m)
  from a b c show ?thesis by blast
qed

text \<open>
  Claim C4. For a required number of years that is not negative, the experience-years
  score does not decrease when the candidate's years grow; it is 100 once the candidate
  has the required years and never more than 100; below the requirement it is the ratio
  of the candidate's years to the required years, times 100; and it is 100 when nothing
  is required.
\<close>

theorem years_experience_score_monotone:
  "0 \<le> requiredYears \<Longrightarrow>
   (c1 \<le> c2 \<longrightarrow>
      yearsExperienceScore c1 requiredYears \<le> yearsExperienceScore c2 requiredYears) \<and>
   (requiredYears \<le> c \<longrightarrow> yearsExperienceScore c requiredYears = 100) \<and>
   yearsExperienceScore c requiredYears \<le> 100 \<and>
   (0 \<le> c \<and> c < requiredYears \<longrightarrow>
      yearsExperienceScore c requiredYears = c / requiredYears * 100) \<and>
   (requiredYears = 0 \<longrightarrow> yearsExperienceScore c requiredYears = 100)"
proof -
  assume nonneg: "0 \<le> requiredYears"
  have below: "x / requiredYears * 100 \<le> 100" if "x < requiredYears" for x
  proof (cases "requiredYears = 0")
    case True
    then show ?thesis by simp
  next
    case False
    with nonneg have pos: "0 < requiredYears" by simp
    with that have "x / requiredYears \<le> 1" by (simp add: divide_le_eq)
    then have "x / requiredYears * 100 \<le> 1 * 100"
      by (rule mult_right_mono) simp
    then show ?thesis by simp
  qed
  have mono: "yearsExperienceScore c1 requiredYears \<le> yearsExperienceScore c2 requiredYears"
    if le: "c1 \<le> c2"
  proof (cases "requiredYears = 0")
    case True
    then show ?thesis by (simp add: yearsExperienceScore_def)
  next
    case False
    with nonneg have pos: "0 < requiredYears" by simp
    show ?thesis
    proof (cases "requiredYears \<le> c2")
      case True
      then show ?thesis
        using False below [of c1] by (simp add: yearsExperienceScore_def not_le)
    next
      case c2: False
      with le have c1: "\<not> requiredYears \<le> c1" by simp
      from le pos have "c1 / requiredYears \<le> c2 / requiredYears"
        by (simp add: divide_right_mono)
      then have "c1 / requiredYears * 100 \<le> c2 / requiredYears * 100"
        by (rule mult_right_mono) simp
      with False c1 c2 show ?thesis by (simp add: yearsExperienceScore_def)
    qed
  qed
  have cap: "yearsExperienceScore c requiredYears \<le> 100"
    using below [of c] by (simp add: yearsExperienceScore_def not_le)
  show ?thesis
    using mono cap by (auto simp: yearsExperienceScore_def)
qed

text \<open>
  Three and six years against five required, and seven years against none required.
\<close>

theorem years_experience_score_monotone_witness:
  "(0::rat) \<le> 5 \<and> yearsExperienceScore 3 5 = 60 \<and> yearsExperienceScore 6 5 = 100 \<and>
   yearsExperienceScore 3 5 \<le> yearsExperienceScore 6 5 \<and> yearsExperienceScore 7 0 = 100"
proof -
  have five: "(0::rat) \<le> 5" by simp
  have zero: "(0::rat) \<le> 0" by simp
  from years_experience_score_monotone [OF five, of 3 6 6]
  have a: "yearsExperienceScore 3 5 \<le> yearsExperienceScore 6 5"
    and b: "yearsExperienceScore 6 5 = 100" by simp_all
  from years_experience_score_monotone [OF five, of 3 3 3]
  have c: "yearsExperienceScore 3 5 = 60" by simp
  from years_experience_score_monotone [OF zero, of 7 7 7]
  have d: "yearsExperienceScore 7 0 = 100" by simp
  from five a b c d show ?thesis by blast
qed

lemma educationLevel_range: "0 \<le> educationLevel label \<and> educationLevel label \<le> 5"
  by (simp add: educationLevel_def Let_def)

lemma educationLevel_table:
  "(educationLevel label = 5) =
     (contains ''phd'' (toLowerCase label) \<or> contains ''doctorate'' (toLowerCase label)) \<and>
   (educationLevel label = 4) =
     (educationLevel label \<noteq> 5 \<and>
      (contains ''master'' (toLowerCase label) \<or> contains ''mba'' (toLowerCase label))) \<and>
   (educationLevel label = 3) =
     (educationLevel label \<notin> {4, 5} \<and> contains ''bachelor'' (toLowerCase label)) \<and>
   (educationLevel label = 2) =
     (educationLevel label \<notin> {3, 4, 5} \<and> contains ''associate'' (toLowerCase label)) \<and>
   (educationLevel label = 1) =
     (educationLevel label \<notin> {2, 3, 4, 5} \<and>
      (contains ''diploma'' (toLowerCase label) \<or> contains ''certificate'' (toLowerCase label)))"
  by (simp add: educationLevel_def Let_def)

lemma candidateLevel_Max:
  "candidateLevel entries = Max (insert 0 (set (map (\<lambda>e. educationLevel (degree e)) entries)))"
proof (induction entries)
  case Nil
  then show ?case by (simp add: candidateLevel_def)
next
  case (Cons e es)
  have "candidateLevel (e # es) = max (educationLevel (degree e)) (candidateLevel es)"
    by (simp add: candidateLevel_def)
  also have "\<dots> = max (educationLevel (degree e))
                     (Max (insert 0 (set (map (\<lambda>e. educationLevel (degree e)) es))))"
    by (simp only: Cons.IH)
  also have "\<dots> = Max (insert (educationLevel (degree e))
                           (insert 0 (set (map (\<lambda>e. educationLevel (degree e)) es))))"
    by (subst Max_insert) simp_all
  also have "\<dots> = Max (insert 0 (set (map (\<lambda>e. educationLevel (degree e)) (e # es))))"
    by (simp add: insert_commute)
  finally show ?case .
qed

text \<open>
  Claim C5. Without a required education the score is 100 for every candidate. With one,
  a candidate at or above the required level scores 100, a candidate one level below
  scores 70 and a candidate further below scores 40. The candidate's level is the highest
  level among the entries, and the level of a text follows the keyword table: 5 for
  "phd" or "doctorate", 4 for "master" or "mba", 3 for "bachelor", 2 for "associate", 1
  for "diploma" or "certificate", the highest match winning, and 0 otherwise.
\<close>

theorem education_score_levels:
  "educationScore '''' entries = 100 \<and>
   (required \<noteq> '''' \<longrightarrow>
      (educationLevel required \<le> candidateLevel entries \<longrightarrow>
         educationScore required entries = 100) \<and>
      (candidateLevel entries = educationLevel required - 1 \<longrightarrow>
         educationScore required entries = 70) \<and>
      (candidateLevel entries < educationLevel required - 1 \<longrightarrow>
         educationScore required entries = 40)) \<and>
   candidateLevel entries
     = Max (insert 0 (set (map (\<lambda>e. educationLevel (degree e)) entries))) \<and>
   (0 \<le> educationLevel label \<and> educationLevel label \<le> 5) \<and>
   ((educationLevel label = 5) =
      (contains ''phd'' (toLowerCase label) \<or> contains ''doctorate'' (toLowerCase label)) \<and>
    (educationLevel label = 4) =
      (educationLevel label \<noteq> 5 \<and>
       (contains ''master'' (toLowerCase label) \<or> contains ''mba'' (toLowerCase label))) \<and>
    (educationLevel label = 3) =
      (educationLevel label \<notin> {4, 5} \<and> contains ''bachelor'' (toLowerCase label)) \<and>
    (educationLevel label = 2) =
      (educationLevel label \<notin> {3, 4, 5} \<and> contains ''associate'' (toLowerCase label)) \<and>
    (educationLevel label = 1) =
      (educationLevel label \<notin> {2, 3, 4, 5} \<and>
       (contains ''diploma'' (toLowerCase label) \<or> contains ''certificate'' (toLowerCase label))))"
proof (intro conjI)
  show "educationScore '''' entries = 100"
    by (simp add: educationScore_def)
  show "required \<noteq> '''' \<longrightarrow>
      (educationLevel required \<le> candidateLevel entries \<longrightarrow>
         educationScore required entries = 100) \<and>
      (candidateLevel entries = educationLevel required - 1 \<longrightarrow>
         educationScore required entries = 70) \<and>
      (candidateLevel entries < educationLevel required - 1 \<longrightarrow>
         educationScore required entries = 40)"
    by (simp add: educationScore_def Let_def)
  show "candidateLevel entries
          = Max (insert 0 (set (map (\<lambda>e. educationLevel (degree e)) entries)))"
    by (rule candidateLevel_Max)
qed (use educationLevel_range [of label] educationLevel_table [of label] in blast)+

text \<open>
  A Master against a required Bachelor, a Bachelor against a required MBA, and a Bachelor
  against a required PhD.
\<close>

theorem education_score_levels_witness:
  "educationScore ''Bachelor'' [edu ''High school'', edu ''Master of Science''] = 100 \<and>
   educationScore ''MBA'' [edu ''Bachelor of Computer Science''] = 70 \<and>
   educationScore ''PhD'' [edu ''Bachelor of Computer Science''] = 40"
proof -
  have l1: "educationLevel ''Bachelor'' = 3" by code_simp
  have l2: "educationLevel ''MBA'' = 4" by code_simp
  have l3: "educationLevel ''PhD'' = 5" by code_simp
  have c1: "candidateLevel [edu ''High school'', edu ''Master of Science''] = 4" by code_simp
  have c2: "candidateLevel [edu ''Bachelor of Computer Science''] = 3" by code_simp
  from education_score_levels [of "[edu ''High school'', edu ''Master of Science'']" "''Bachelor''"]
  have a: "educationScore ''Bachelor'' [edu ''High school'', edu ''Master of Science''] = 100"
    by (simp add: l1 c1)
  from education_score_levels [of "[edu ''Bachelor of Computer Science'']" "''MBA''"]
  have b: "educationScore ''MBA'' [edu ''Bachelor of Computer Science''] = 70"
    by (simp add: l2 c2)
  from education_score_levels [of "[edu ''Bachelor of Computer Science'']" "''PhD''"]
  have c: "educationScore ''PhD'' [edu ''Bachelor of Computer Science''] = 40"
    by (simp add: l3 c2)
  from a b c show ?thesis by blast
qed

end
